theory Spec2Isabelle
  imports Main
begin

section \<open>Strings of the JavaScript runtime\<close>

text \<open>
  A JavaScript string is modelled as a \<^typ>\<open>string\<close>: the list of its code units,
  restricted to code units below 256 (ASCII and Latin-1). \<open>length\<close> is the
  \<open>.length\<close> of the source. The definitions of this section model the built-in string
  methods the repository calls.
\<close>

text \<open>\<open>String.prototype.startsWith\<close>.\<close>

fun startsWith :: "string \<Rightarrow> string \<Rightarrow> bool" where
  "startsWith s [] = True"
| "startsWith [] (c # cs) = False"
| "startsWith (x # xs) (c # cs) = (x = c \<and> startsWith xs cs)"

text \<open>\<open>String.prototype.includes\<close>: some suffix of the string starts with the
  searched text.\<close>

fun includes_str :: "string \<Rightarrow> string \<Rightarrow> bool" where
  "includes_str [] sub = (sub = [])"
| "includes_str (x # xs) sub = (if startsWith (x # xs) sub then True else includes_str xs sub)"

text \<open>\<open>String.prototype.toLowerCase\<close> on code units below 256: the letters
  \<open>A\<close>..\<open>Z\<close> and the upper-case Latin-1 letters (192..222 without the
  multiplication sign 215) move up by 32.\<close>

definition lower_char :: "char \<Rightarrow> char" where
  "lower_char c =
     (let n = (of_char c :: nat)
      in if 65 \<le> n \<and> n \<le> 90 then char_of (n + 32)
         else if 192 \<le> n \<and> n \<le> 222 \<and> n \<noteq> 215 then char_of (n + 32)
         else c)"

definition toLowerCase :: "string \<Rightarrow> string" where
  "toLowerCase s = map lower_char s"

text \<open>\<open>String.prototype.trim\<close>: white space and line terminators below 256 are
  tab, line feed, vertical tab, form feed, carriage return, space and the no-break
  space.\<close>

definition isWhiteSpace :: "char \<Rightarrow> bool" where
  "isWhiteSpace c = ((of_char c :: nat) \<in> {9, 10, 11, 12, 13, 32, 160})"

definition trim :: "string \<Rightarrow> string" where
  "trim s = rev (dropWhile isWhiteSpace (rev (dropWhile isWhiteSpace s)))"

text \<open>\<open>s.substring(0, n)\<close> for a count \<open>n\<close>, and \<open>xs.slice(0, n)\<close> on arrays.\<close>

definition substring0 :: "string \<Rightarrow> nat \<Rightarrow> string" where
  "substring0 s n = take n s"

definition slice0 :: "'a list \<Rightarrow> nat \<Rightarrow> 'a list" where
  "slice0 xs n = take n xs"

text \<open>\<open>s.replace(/&amp;/g, '&')\<close>: every occurrence of the escaped ampersand,
  scanning from the left, is replaced.\<close>

fun replace_amp :: "string \<Rightarrow> string" where
  "replace_amp [] = []"
| "replace_amp (x # xs) =
     (if startsWith (x # xs) ''&amp;'' then CHR ''&'' # replace_amp (drop 4 xs)
      else x # replace_amp xs)"

section \<open>The commenter: data\<close>

text \<open>
  The \<open>CommenterConfig\<close> of the commenter, flattened to the options the pipeline reads.
  Counts and lengths are natural numbers; times are integers (seconds or hours).
\<close>

record CommenterConfig =
  maxCommentsPerRun :: nat
  delayBetweenComments :: int
  minCommentCount :: nat
  maxPostAgeHours :: int
  candidateBatchSize :: nat
  topCommentsToFetch :: nat
  dryRunMode :: bool
  maxCommentLength :: nat
  minCommentLength :: nat
  blacklistedKeywords :: "string list"

record RedditPost =
  p_id :: string
  p_title :: string
  p_selftext :: string
  p_author :: string
  p_url :: string
  p_created_utc :: int
  p_num_comments :: nat
  p_score :: int
  p_is_video :: bool

text \<open>A comment as the listing delivers it (\<open>child.data\<close>): the body may be absent.\<close>

record RedditComment =
  c_id :: string
  c_body :: "string option"
  c_author :: string
  c_score :: int
  c_created_utc :: int

record CommenterResult =
  processed :: nat
  commented :: nat
  skipped :: nat
  errors :: nat
  apiCallsUsed :: nat

section \<open>The external collaborators\<close>

text \<open>
  An HTTP exchange made with \<open>fetch\<close>: the request fails (network error, timeout, no
  access token), or a response arrives with a status and a body; the body is \<open>None\<close>
  when it does not parse to the shape the caller reads.
\<close>

datatype 'a http_result =
  NetworkFailure
| HttpResponse (status: nat) (json: "'a option")

definition response_ok :: "nat \<Rightarrow> bool" where
  "response_ok st = (200 \<le> st \<and> st \<le> 299)"

text \<open>The body of Reddit's answer to a comment submission, as
  \<open>RedditOAuthManager.postComment\<close> reads it: \<open>result.json.errors\<close>,
  \<open>result.json.data.things\<close> and \<open>result.success\<close>.\<close>

record comment_api_result =
  json_errors :: "string list option"
  json_data_things :: "string list option"
  success_flag :: bool

text \<open>What a thrown JavaScript error carries is not read by the pipeline.\<close>

datatype exn = Error string

text \<open>How a call of the storage client can go wrong: the client throws, or it returns
  an error object with a code.\<close>

datatype storage_failure = ClientThrows | ErrorCode string

text \<open>
  The world one run talks to. Each collaborator answers as a function of the request:
  the hot listing, the comment listing of a post, the completion endpoint (asked with
  the prompt built from a post and its comments), the comment submission endpoint
  (post id and text), and the storage layer, whose queries and inserts on the
  \<open>bot_comments\<close> table can fail (\<open>None\<close>: the call goes through). \<open>now_seconds\<close> is
  the clock reading \<open>Math.floor(Date.now() / 1000)\<close> taken by the Candidate Filter.
\<close>

record world =
  hot_listing :: "RedditPost list http_result"
  comments_listing :: "string \<Rightarrow> RedditComment list http_result"
  completion :: "RedditPost \<Rightarrow> RedditComment list \<Rightarrow> string http_result"
  comment_api :: "string \<Rightarrow> string \<Rightarrow> comment_api_result http_result"
  select_failure :: "string \<Rightarrow> storage_failure option"
  insert_failure :: "string \<Rightarrow> storage_failure option"
  now_seconds :: int

text \<open>The effects a run has on its collaborators, in the order they happen.\<close>

datatype event =
  HotPostsRequest
| RecordLookup string
| CommentsRequest string
| CompletionRequest string
| DryRunPrint string string
| CommentSubmission string string bool
| RecordInsert string bool
| Delay int

text \<open>The state a run threads: the rows of \<open>bot_comments\<close> (the post ids that have a
  CommentRecord) and the effects so far.\<close>

record sys =
  bot_comments :: "string list"
  trace :: "event list"

definition emit :: "event \<Rightarrow> sys \<Rightarrow> sys" where
  "emit e st = st\<lparr>trace := trace st @ [e]\<rparr>"

section \<open>The Comment Generator\<close>

text \<open>The validation at the end of \<open>generateComment\<close>: length checks first, the
  blacklist last.\<close>

definition hasBlacklisted :: "CommenterConfig \<Rightarrow> string \<Rightarrow> bool" where
  "hasBlacklisted cfg comment =
     list_ex (\<lambda>keyword. includes_str (toLowerCase comment) (toLowerCase keyword))
       (blacklistedKeywords cfg)"

definition validateComment :: "CommenterConfig \<Rightarrow> string \<Rightarrow> string option" where
  "validateComment cfg comment =
     (if length comment < minCommentLength cfg then None
      else if length comment > maxCommentLength cfg
        then Some (substring0 comment (maxCommentLength cfg))
      else if hasBlacklisted cfg comment then None
      else Some comment)"

text \<open>\<open>generateComment\<close>: every failure inside the \<open>try\<close> (the request fails, the status
  is not a success, the body has no message content) ends in the \<open>catch\<close>, which
  returns \<open>null\<close>.\<close>

definition generateComment ::
  "CommenterConfig \<Rightarrow> world \<Rightarrow> RedditPost \<Rightarrow> RedditComment list \<Rightarrow> sys \<Rightarrow> string option \<times> sys"
where
  "generateComment cfg w post comments st =
     (let st1 = emit (CompletionRequest (p_id post)) st
      in case completion w post comments of
           NetworkFailure \<Rightarrow> (None, st1)
         | HttpResponse code body \<Rightarrow>
             if response_ok code
             then (case body of
                     None \<Rightarrow> (None, st1)
                   | Some content \<Rightarrow> (validateComment cfg (trim content), st1))
             else (None, st1))"

section \<open>Storage: the CommentRecord table\<close>

text \<open>
  The answer of \<open>supabase.from('bot_comments').select('id').eq('reddit_post_id', id).single()\<close>:
  the client throws, or it returns \<open>{ data, error }\<close>. A working storage layer returns
  the row when the post id has one, and the error code \<open>PGRST116\<close> ("not found")
  when it has none.
\<close>

datatype query_result =
  QueryThrows
| QueryResult (q_data: "string option") (q_error: "string option")

definition select_single :: "world \<Rightarrow> sys \<Rightarrow> string \<Rightarrow> query_result" where
  "select_single w st redditPostId =
     (case select_failure w redditPostId of
        Some ClientThrows \<Rightarrow> QueryThrows
      | Some (ErrorCode code) \<Rightarrow> QueryResult None (Some code)
      | None \<Rightarrow>
          if redditPostId \<in> set (bot_comments st)
          then QueryResult (Some redditPostId) None
          else QueryResult None (Some ''PGRST116''))"

definition checkAlreadyCommented :: "world \<Rightarrow> string \<Rightarrow> sys \<Rightarrow> bool \<times> sys" where
  "checkAlreadyCommented w redditPostId st =
     (let st1 = emit (RecordLookup redditPostId) st
      in case select_single w st redditPostId of
           QueryThrows \<Rightarrow> (False, st1)
         | QueryResult data error \<Rightarrow>
             if error \<noteq> None \<and> error \<noteq> Some ''PGRST116'' then (False, st1)
             else (data \<noteq> None, st1))"

definition recordComment :: "world \<Rightarrow> string \<Rightarrow> sys \<Rightarrow> bool \<times> sys" where
  "recordComment w redditPostId st =
     (case insert_failure w redditPostId of
        Some failure \<Rightarrow> (False, emit (RecordInsert redditPostId False) st)
      | None \<Rightarrow>
          (True, emit (RecordInsert redditPostId True)
                   (st\<lparr>bot_comments := bot_comments st @ [redditPostId]\<rparr>)))"

section \<open>Reddit requests of the commenter\<close>

definition fetchHotPosts :: "CommenterConfig \<Rightarrow> world \<Rightarrow> sys \<Rightarrow> (exn + RedditPost list) \<times> sys" where
  "fetchHotPosts cfg w st =
     (let st1 = emit HotPostsRequest st
      in case hot_listing w of
           NetworkFailure \<Rightarrow> (Inl (Error ''request failed''), st1)
         | HttpResponse code body \<Rightarrow>
             if response_ok code
             then (case body of
                     None \<Rightarrow> (Inl (Error ''malformed listing''), st1)
                   | Some posts \<Rightarrow> (Inr posts, st1))
             else (Inl (Error ''HTTP error''), st1))"

text \<open>The filter of \<open>fetchPostComments\<close>: a usable comment has a non-empty body that is
  not the deletion placeholder and is longer than 10.\<close>

definition usableComment :: "RedditComment \<Rightarrow> bool" where
  "usableComment c =
     (case c_body c of
        None \<Rightarrow> False
      | Some body \<Rightarrow> body \<noteq> [] \<and> body \<noteq> ''[deleted]'' \<and> length body > 10)"

definition fetchPostComments ::
  "CommenterConfig \<Rightarrow> world \<Rightarrow> string \<Rightarrow> sys \<Rightarrow> (exn + RedditComment list) \<times> sys"
where
  "fetchPostComments cfg w postId st =
     (let st1 = emit (CommentsRequest postId) st
      in case comments_listing w postId of
           NetworkFailure \<Rightarrow> (Inl (Error ''request failed''), st1)
         | HttpResponse code body \<Rightarrow>
             if response_ok code
             then (case body of
                     None \<Rightarrow> (Inl (Error ''malformed listing''), st1)
                   | Some children \<Rightarrow> (Inr (filter usableComment children), st1))
             else (Inl (Error ''HTTP error''), st1))"

text \<open>\<open>RedditOAuthManager.postComment\<close>: an HTTP success is not enough; the error list
  must be empty and either the created things or the success flag must be there.
  Every exception is caught and gives \<open>false\<close>.\<close>

definition RedditOAuthManager_postComment :: "world \<Rightarrow> string \<Rightarrow> string \<Rightarrow> bool" where
  "RedditOAuthManager_postComment w postId commentText =
     (case comment_api w postId commentText of
        NetworkFailure \<Rightarrow> False
      | HttpResponse code body \<Rightarrow>
          if response_ok code
          then (case body of
                  None \<Rightarrow> False
                | Some result \<Rightarrow>
                    if (case json_errors result of None \<Rightarrow> False | Some es \<Rightarrow> length es > 0)
                    then False
                    else if json_data_things result \<noteq> None then True
                    else if success_flag result then True
                    else False)
          else False)"

definition postComment ::
  "CommenterConfig \<Rightarrow> world \<Rightarrow> string \<Rightarrow> string \<Rightarrow> sys \<Rightarrow> bool \<times> sys"
where
  "postComment cfg w postId commentText st =
     (if dryRunMode cfg then (True, emit (DryRunPrint postId commentText) st)
      else (let success = RedditOAuthManager_postComment w postId commentText
            in (success, emit (CommentSubmission postId commentText success) st)))"

section \<open>The Candidate Filter\<close>

definition imageExtensions :: "string list" where
  "imageExtensions = [''.jpg'', ''.jpeg'', ''.png'', ''.gif'', ''.webp'']"

definition imageDomains :: "string list" where
  "imageDomains = [''i.redd.it'', ''i.imgur.com'', ''preview.redd.it'']"

definition hasImageExtension :: "string \<Rightarrow> bool" where
  "hasImageExtension link = list_ex (\<lambda>ext. includes_str (toLowerCase link) ext) imageExtensions"

definition hasImageDomain :: "string \<Rightarrow> bool" where
  "hasImageDomain link = list_ex (\<lambda>domain. includes_str link domain) imageDomains"

text \<open>The commenter's \<open>isImageUrl\<close> also accepts gallery links.\<close>

definition isImageUrl_commenter :: "string \<Rightarrow> bool" where
  "isImageUrl_commenter link =
     (hasImageExtension link \<or> hasImageDomain link \<or> includes_str link ''reddit.com/gallery/'')"

text \<open>The loop of \<open>filterCandidatePosts\<close> that asks the storage layer, post by post.\<close>

fun collectNotCommented ::
  "world \<Rightarrow> RedditPost list \<Rightarrow> RedditPost list \<Rightarrow> sys \<Rightarrow> RedditPost list \<times> sys"
where
  "collectNotCommented w [] notCommented st = (notCommented, st)"
| "collectNotCommented w (post # rest) notCommented st =
     (case checkAlreadyCommented w (p_id post) st of
        (alreadyCommented, st1) \<Rightarrow>
          collectNotCommented w rest
            (if alreadyCommented then notCommented else notCommented @ [post]) st1)"

definition filterCandidatePosts ::
  "CommenterConfig \<Rightarrow> world \<Rightarrow> RedditPost list \<Rightarrow> sys \<Rightarrow> RedditPost list \<times> sys"
where
  "filterCandidatePosts cfg w posts st =
     (let withEnoughComments = filter (\<lambda>post. p_num_comments post \<ge> minCommentCount cfg) posts;
          now = now_seconds w;
          maxAge = maxPostAgeHours cfg * 3600;
          recentPosts = filter (\<lambda>post. now - p_created_utc post \<le> maxAge) withEnoughComments;
          imagePosts =
            filter (\<lambda>post. \<not> p_is_video post \<and> isImageUrl_commenter (p_url post)) recentPosts
      in case collectNotCommented w imagePosts [] st of
           (notCommented, st1) \<Rightarrow> (slice0 notCommented (maxCommentsPerRun cfg), st1))"

section \<open>The Run Orchestrator\<close>

text \<open>The body of the \<open>try\<close> block of \<open>processPost\<close>. An exception of
  \<open>fetchPostComments\<close> leaves the block (\<open>Inl\<close>).\<close>

definition afterPosting :: "CommenterConfig \<Rightarrow> sys \<Rightarrow> (exn + bool) \<times> sys" where
  "afterPosting cfg st =
     (if delayBetweenComments cfg > 0
      then (Inr True, emit (Delay (delayBetweenComments cfg)) st)
      else (Inr True, st))"

definition processPost_try ::
  "CommenterConfig \<Rightarrow> world \<Rightarrow> RedditPost \<Rightarrow> sys \<Rightarrow> (exn + bool) \<times> sys"
where
  "processPost_try cfg w post st =
     (case fetchPostComments cfg w (p_id post) st of
        (Inl e, st1) \<Rightarrow> (Inl e, st1)
      | (Inr comments, st1) \<Rightarrow>
          if length comments < 3 then (Inr False, st1)
          else (case generateComment cfg w post comments st1 of
                  (None, st2) \<Rightarrow> (Inr False, st2)
                | (Some commentText, st2) \<Rightarrow>
                    if commentText = [] then (Inr False, st2)
                    else (case postComment cfg w (p_id post) commentText st2 of
                            (posted, st3) \<Rightarrow>
                              if posted
                              then (if dryRunMode cfg then afterPosting cfg st3
                                    else (case recordComment w (p_id post) st3 of
                                            (recorded, st4) \<Rightarrow>
                                              if recorded then afterPosting cfg st4
                                              else (Inr False, st4)))
                              else (Inr False, st3))))"

text \<open>\<open>processPost\<close>: the \<open>catch\<close> logs the exception and returns \<open>false\<close>.\<close>

definition processPost ::
  "CommenterConfig \<Rightarrow> world \<Rightarrow> RedditPost \<Rightarrow> sys \<Rightarrow> (exn + bool) \<times> sys"
where
  "processPost cfg w post st =
     (case processPost_try cfg w post st of
        (Inl e, st1) \<Rightarrow> (Inr False, st1)
      | (Inr success, st1) \<Rightarrow> (Inr success, st1))"

text \<open>The loop of \<open>runIntelligentCommenter\<close> over the candidates, with its own
  \<open>try\<close>/\<open>catch\<close> around \<open>processPost\<close>.\<close>

fun processCandidates ::
  "CommenterConfig \<Rightarrow> world \<Rightarrow> RedditPost list \<Rightarrow> CommenterResult \<Rightarrow> sys \<Rightarrow> CommenterResult \<times> sys"
where
  "processCandidates cfg w [] result st = (result, st)"
| "processCandidates cfg w (post # rest) result st =
     (let result1 = result\<lparr>processed := processed result + 1\<rparr>
      in case processPost cfg w post st of
           (Inr success, st1) \<Rightarrow>
             (let result2 = result1\<lparr>apiCallsUsed := apiCallsUsed result1 + 2\<rparr>;
                  result3 =
                    (if success
                     then (let result2a = result2\<lparr>commented := commented result2 + 1\<rparr>
                           in if dryRunMode cfg then result2a
                              else result2a\<lparr>apiCallsUsed := apiCallsUsed result2a + 1\<rparr>)
                     else result2\<lparr>skipped := skipped result2 + 1\<rparr>)
              in processCandidates cfg w rest result3 st1)
         | (Inl e, st1) \<Rightarrow>
             processCandidates cfg w rest (result1\<lparr>errors := errors result1 + 1\<rparr>) st1)"

definition initialResult :: CommenterResult where
  "initialResult = \<lparr>processed = 0, commented = 0, skipped = 0, errors = 0, apiCallsUsed = 0\<rparr>"

text \<open>\<open>runIntelligentCommenter\<close>: an exception of \<open>fetchHotPosts\<close> is logged and thrown
  again (\<open>Inl\<close>).\<close>

definition runIntelligentCommenter ::
  "CommenterConfig \<Rightarrow> world \<Rightarrow> sys \<Rightarrow> (exn + CommenterResult) \<times> sys"
where
  "runIntelligentCommenter cfg w st =
     (case fetchHotPosts cfg w st of
        (Inl e, st1) \<Rightarrow> (Inl e, st1)
      | (Inr hotPosts, st1) \<Rightarrow>
          (let result = initialResult\<lparr>apiCallsUsed := apiCallsUsed initialResult + 1\<rparr>
           in case filterCandidatePosts cfg w hotPosts st1 of
                (candidates, st2) \<Rightarrow>
                  if length candidates = 0 then (Inr result, st2)
                  else (case processCandidates cfg w candidates result st2 of
                          (final, st3) \<Rightarrow> (Inr final, st3))))"

section \<open>The Image Resolver of the crawlers\<close>

text \<open>
  The raw post the crawlers pass to \<open>validateImage\<close> is untyped in the source; the record
  has the fields the resolver reads. An absent field is \<open>None\<close>. The media-metadata
  object is the list of its entries in the order \<open>Object.keys\<close> enumerates them.
\<close>

datatype media_source = MediaSource (ms_u: "string option")

datatype media_item = MediaItem (mi_s: "media_source option")

datatype gallery_item = GalleryItem (media_id: string)

datatype gallery_data = GalleryData (gd_items: "gallery_item list option")

record RawPost =
  r_id :: string
  r_url :: "string option"
  r_is_video :: bool
  r_is_gallery :: bool
  r_media_metadata :: "(string \<times> media_item) list option"
  r_gallery_data :: "gallery_data option"

record ImageValidation =
  isValid :: bool
  iv_url :: string
  reason :: "string option"

text \<open>The answer to a \<open>HEAD\<close> probe: the request fails or times out, or a response
  arrives with a status and possibly a content type.\<close>

datatype head_result =
  HeadFails
| HeadResponse (h_status: nat) (h_content_type: "string option")

text \<open>\<open>isImageUrl\<close>, \<open>isGalleryUrl\<close> and \<open>isImgurAlbumUrl\<close> are the same in both
  crawlers.\<close>

definition isImageUrl :: "string \<Rightarrow> bool" where
  "isImageUrl link = (hasImageExtension link \<or> hasImageDomain link)"

definition isGalleryUrl :: "string \<Rightarrow> bool" where
  "isGalleryUrl link = includes_str link ''reddit.com/gallery/''"

definition isImgurAlbumUrl :: "string \<Rightarrow> bool" where
  "isImgurAlbumUrl link =
     (includes_str link ''imgur.com/a/'' \<or> includes_str link ''imgur.com/gallery/'')"

text \<open>The regular expression \<open>/imgur\.com\/(?:a|gallery)\/([a-zA-Z0-9]+)/\<close>: the
  leftmost position where one of the two path prefixes is followed by at least one
  letter or digit; the capture is the longest run of letters and digits there.\<close>

definition isAlnum :: "char \<Rightarrow> bool" where
  "isAlnum c =
     (let n = (of_char c :: nat)
      in (48 \<le> n \<and> n \<le> 57) \<or> (65 \<le> n \<and> n \<le> 90) \<or> (97 \<le> n \<and> n \<le> 122))"

definition albumMatchAt :: "string \<Rightarrow> string option" where
  "albumMatchAt s =
     (if startsWith s ''imgur.com/a/''
      then (let albumId = takeWhile isAlnum (drop 12 s)
            in if albumId = [] then None else Some albumId)
      else if startsWith s ''imgur.com/gallery/''
      then (let albumId = takeWhile isAlnum (drop 18 s)
            in if albumId = [] then None else Some albumId)
      else None)"

fun albumMatch :: "string \<Rightarrow> string option" where
  "albumMatch [] = None"
| "albumMatch (x # xs) =
     (case albumMatchAt (x # xs) of
        Some albumId \<Rightarrow> Some albumId
      | None \<Rightarrow> albumMatch xs)"

definition probeIsImage :: "head_result \<Rightarrow> bool" where
  "probeIsImage r =
     (case r of
        HeadFails \<Rightarrow> False
      | HeadResponse code ctype \<Rightarrow>
          response_ok code \<and>
          (case ctype of None \<Rightarrow> False | Some t \<Rightarrow> startsWith t ''image/''))"

text \<open>The probing loop of \<open>extractImageFromImgurAlbum\<close>: the first candidate that
  answers as an image wins. The second component lists the links probed.\<close>

fun probeFirst :: "(string \<Rightarrow> head_result) \<Rightarrow> string list \<Rightarrow> string option \<times> string list" where
  "probeFirst head [] = (None, [])"
| "probeFirst head (testUrl # rest) =
     (if probeIsImage (head testUrl) then (Some testUrl, [testUrl])
      else (case probeFirst head rest of (found, probed) \<Rightarrow> (found, testUrl # probed)))"

definition extractImageFromImgurAlbum ::
  "(string \<Rightarrow> head_result) \<Rightarrow> string \<Rightarrow> string option \<times> string list"
where
  "extractImageFromImgurAlbum head link =
     (case albumMatch link of
        None \<Rightarrow> (None, [])
      | Some albumId \<Rightarrow>
          probeFirst head
            [''https://i.imgur.com/'' @ albumId @ ''.jpg'',
             ''https://i.imgur.com/'' @ albumId @ ''.png'',
             ''https://i.imgur.com/'' @ albumId @ ''.gif''])"

text \<open>\<open>mediaItem && mediaItem.s && mediaItem.s.u\<close>, followed by the decoding of the
  escaped ampersands.\<close>

definition mediaItemUrl :: "media_item option \<Rightarrow> string option" where
  "mediaItemUrl mediaItem =
     (case mediaItem of
        None \<Rightarrow> None
      | Some item \<Rightarrow>
          (case mi_s item of
             None \<Rightarrow> None
           | Some src \<Rightarrow>
               (case ms_u src of
                  None \<Rightarrow> None
                | Some u \<Rightarrow> if u = [] then None else Some (replace_amp u))))"

text \<open>The fallback of \<open>extractFirstImageFromGallery\<close>: the first key that
  \<open>Object.keys\<close> enumerates.\<close>

definition galleryFallback :: "(string \<times> media_item) list \<Rightarrow> string option" where
  "galleryFallback metadata =
     (let mediaIds = map fst metadata
      in case mediaIds of
           [] \<Rightarrow> None
         | firstMediaId # others \<Rightarrow> mediaItemUrl (map_of metadata firstMediaId))"

text \<open>The ordered item list of the gallery, when it is there and not empty.\<close>

definition galleryItems :: "RawPost \<Rightarrow> gallery_item list" where
  "galleryItems post =
     (case r_gallery_data post of
        None \<Rightarrow> []
      | Some gd \<Rightarrow> (case gd_items gd of None \<Rightarrow> [] | Some items \<Rightarrow> items))"

definition extractFirstImageFromGallery :: "RawPost \<Rightarrow> string option" where
  "extractFirstImageFromGallery post =
     (if r_is_gallery post
      then (case r_media_metadata post of
              None \<Rightarrow> None
            | Some metadata \<Rightarrow>
                (case galleryItems post of
                   [] \<Rightarrow> galleryFallback metadata
                 | firstItem # others \<Rightarrow>
                     (case mediaItemUrl (map_of metadata (media_id firstItem)) of
                        Some imageUrl \<Rightarrow> Some imageUrl
                      | None \<Rightarrow> galleryFallback metadata)))
      else None)"

definition checkImageAvailability :: "(string \<Rightarrow> head_result) \<Rightarrow> string \<Rightarrow> bool \<times> string list" where
  "checkImageAvailability head link =
     (case head link of
        HeadFails \<Rightarrow> (False, [link])
      | HeadResponse code ctype \<Rightarrow>
          if response_ok code
          then (startsWith (case ctype of None \<Rightarrow> [] | Some t \<Rightarrow> t) ''image/'', [link])
          else (False, [link]))"

text \<open>The last step of \<open>validateImage\<close> in \<open>crawler.ts\<close>: the resolved link is probed
  once more.\<close>

definition confirmAvailable ::
  "(string \<Rightarrow> head_result) \<Rightarrow> string \<Rightarrow> string list \<Rightarrow> ImageValidation \<times> string list"
where
  "confirmAvailable head imageUrl probed =
     (if imageUrl = []
      then (\<lparr>isValid = False, iv_url = imageUrl, reason = Some ''No valid image URL found''\<rparr>, probed)
      else (case checkImageAvailability head imageUrl of
              (isAvailable, probed2) \<Rightarrow>
                if isAvailable
                then (\<lparr>isValid = True, iv_url = imageUrl, reason = None\<rparr>, probed @ probed2)
                else (\<lparr>isValid = False, iv_url = imageUrl,
                        reason = Some ''Image URL returns 404 or is unavailable''\<rparr>,
                      probed @ probed2)))"

text \<open>\<open>validateImage\<close> of \<open>crawler.ts\<close>. The second component lists the links probed
  over the network, in order.\<close>

definition validateImage ::
  "(string \<Rightarrow> head_result) \<Rightarrow> RawPost \<Rightarrow> ImageValidation \<times> string list"
where
  "validateImage head post =
     (case r_url post of
        None \<Rightarrow> (\<lparr>isValid = False, iv_url = [], reason = Some ''No URL found''\<rparr>, [])
      | Some link \<Rightarrow>
          if link = []
          then (\<lparr>isValid = False, iv_url = [], reason = Some ''No URL found''\<rparr>, [])
          else if r_is_video post
          then (\<lparr>isValid = False, iv_url = link, reason = Some ''Post is a video''\<rparr>, [])
          else if isImageUrl link then confirmAvailable head link []
          else if isGalleryUrl link
          then (case extractFirstImageFromGallery post of
                  None \<Rightarrow>
                    (\<lparr>isValid = False, iv_url = link,
                       reason = Some ''Could not extract image from gallery''\<rparr>, [])
                | Some imageUrl \<Rightarrow>
                    if imageUrl = []
                    then (\<lparr>isValid = False, iv_url = link,
                            reason = Some ''Could not extract image from gallery''\<rparr>, [])
                    else confirmAvailable head imageUrl [])
          else if isImgurAlbumUrl link
          then (case extractImageFromImgurAlbum head link of
                  (None, probed) \<Rightarrow>
                    (\<lparr>isValid = False, iv_url = link,
                       reason = Some ''Could not extract image from Imgur album''\<rparr>, probed)
                | (Some imageUrl, probed) \<Rightarrow> confirmAvailable head imageUrl probed)
          else (\<lparr>isValid = False, iv_url = link,
                  reason = Some ''URL is not an image or gallery''\<rparr>, []))"

text \<open>\<open>validateImage\<close> of \<open>comprehensive-crawler.ts\<close>: no final probe.\<close>

definition validateImage_comprehensive ::
  "(string \<Rightarrow> head_result) \<Rightarrow> RawPost \<Rightarrow> ImageValidation \<times> string list"
where
  "validateImage_comprehensive head post =
     (case r_url post of
        None \<Rightarrow> (\<lparr>isValid = False, iv_url = [], reason = Some ''No URL found''\<rparr>, [])
      | Some link \<Rightarrow>
          if link = []
          then (\<lparr>isValid = False, iv_url = [], reason = Some ''No URL found''\<rparr>, [])
          else if r_is_video post
          then (\<lparr>isValid = False, iv_url = link, reason = Some ''Post is a video''\<rparr>, [])
          else if isImageUrl link then (\<lparr>isValid = True, iv_url = link, reason = None\<rparr>, [])
          else if isGalleryUrl link
          then (case extractFirstImageFromGallery post of
                  Some firstImage \<Rightarrow>
                    if firstImage = []
                    then (\<lparr>isValid = False, iv_url = link,
                            reason = Some ''Could not extract image from gallery''\<rparr>, [])
                    else (\<lparr>isValid = True, iv_url = firstImage, reason = None\<rparr>, [])
                | None \<Rightarrow>
                    (\<lparr>isValid = False, iv_url = link,
                       reason = Some ''Could not extract image from gallery''\<rparr>, []))
          else if isImgurAlbumUrl link
          then (case extractImageFromImgurAlbum head link of
                  (Some extractedImage, probed) \<Rightarrow>
                    (\<lparr>isValid = True, iv_url = extractedImage, reason = None\<rparr>, probed)
                | (None, probed) \<Rightarrow>
                    (\<lparr>isValid = False, iv_url = link,
                       reason = Some ''Could not extract image from Imgur album''\<rparr>, probed))
          else (\<lparr>isValid = False, iv_url = link,
                  reason = Some ''URL is not an image or gallery''\<rparr>, []))"

section \<open>Reading the effects of a run\<close>

text \<open>The effects added between two states of one run.\<close>

definition new_events :: "sys \<Rightarrow> sys \<Rightarrow> event list" where
  "new_events st st' = drop (length (trace st)) (trace st')"

definition isRecordInsert :: "event \<Rightarrow> bool" where
  "isRecordInsert e = (case e of RecordInsert postId stored \<Rightarrow> True | _ \<Rightarrow> False)"

definition isCommentSubmission :: "event \<Rightarrow> bool" where
  "isCommentSubmission e =
     (case e of CommentSubmission postId commentText success \<Rightarrow> True | _ \<Rightarrow> False)"

text \<open>
  Every insert into \<open>bot_comments\<close> comes right after a comment submission for the same
  post that Reddit confirmed: the effect before it is a submission to that post which
  \<open>RedditOAuthManager.postComment\<close> reported, and reports, as successful. The first
  argument is the world, the second the effect before the list.
\<close>

fun confirmed_from :: "world \<Rightarrow> event option \<Rightarrow> event list \<Rightarrow> bool" where
  "confirmed_from w prev [] = True"
| "confirmed_from w prev (e # es) =
     ((case e of
         RecordInsert postId stored \<Rightarrow>
           (case prev of
              Some (CommentSubmission submittedTo commentText success) \<Rightarrow>
                submittedTo = postId \<and> success \<and>
                RedditOAuthManager_postComment w submittedTo commentText
            | _ \<Rightarrow> False)
       | _ \<Rightarrow> True)
      \<and> confirmed_from w (Some e) es)"

definition inserts_confirmed :: "world \<Rightarrow> event list \<Rightarrow> bool" where
  "inserts_confirmed w evs = confirmed_from w None evs"

text \<open>The post ids of the inserts that the storage layer accepted.\<close>

fun inserted_ids :: "event list \<Rightarrow> string list" where
  "inserted_ids [] = []"
| "inserted_ids (e # es) =
     (case e of
        RecordInsert postId stored \<Rightarrow> (if stored then [postId] else [])
      | _ \<Rightarrow> [])
     @ inserted_ids es"

section \<open>Concrete inputs\<close>

text \<open>A configuration, a post, a world whose collaborators are all down, and the state
  of a fresh run; the examples below vary them.\<close>

definition demo_cfg :: CommenterConfig where
  "demo_cfg =
     \<lparr>maxCommentsPerRun = 2, delayBetweenComments = 30, minCommentCount = 5,
      maxPostAgeHours = 24, candidateBatchSize = 25, topCommentsToFetch = 10,
      dryRunMode = False, maxCommentLength = 12, minCommentLength = 3,
      blacklistedKeywords = [''Spam'']\<rparr>"

definition demo_post :: RedditPost where
  "demo_post =
     \<lparr>p_id = ''p1'', p_title = ''Rate my look'', p_selftext = [], p_author = ''ana'',
      p_url = ''https://i.redd.it/a.jpg'', p_created_utc = 1000, p_num_comments = 10,
      p_score = 7, p_is_video = False\<rparr>"

definition quiet_world :: world where
  "quiet_world =
     \<lparr>hot_listing = NetworkFailure,
      comments_listing = (\<lambda>postId. NetworkFailure),
      completion = (\<lambda>post comments. NetworkFailure),
      comment_api = (\<lambda>postId commentText. NetworkFailure),
      select_failure = (\<lambda>postId. None),
      insert_failure = (\<lambda>postId. None),
      now_seconds = 8200\<rparr>"

definition empty_sys :: sys where
  "empty_sys = \<lparr>bot_comments = [], trace = []\<rparr>"

text \<open>A world whose completion endpoint answers every prompt with the given text.\<close>

definition answering :: "string \<Rightarrow> world" where
  "answering content =
     quiet_world\<lparr>completion := (\<lambda>post comments. HttpResponse 200 (Some content))\<rparr>"

text \<open>Three usable comments and one that is too short.\<close>

definition demo_comments :: "RedditComment list" where
  "demo_comments =
     [\<lparr>c_id = ''c1'', c_body = Some ''What a great jacket!'', c_author = ''bia'',
        c_score = 5, c_created_utc = 1100\<rparr>,
      \<lparr>c_id = ''c2'', c_body = Some ''nice'', c_author = ''caio'',
        c_score = 4, c_created_utc = 1200\<rparr>,
      \<lparr>c_id = ''c3'', c_body = Some ''The colours go well together'', c_author = ''duda'',
        c_score = 3, c_created_utc = 1300\<rparr>,
      \<lparr>c_id = ''c4'', c_body = Some ''Ten out of ten from me'', c_author = ''edu'',
        c_score = 2, c_created_utc = 1400\<rparr>]"

definition accepted :: comment_api_result where
  "accepted = \<lparr>json_errors = Some [], json_data_things = Some [''t1_abc''], success_flag = False\<rparr>"

text \<open>A world where everything works: the hot listing has the one post, its comment
  listing has the four comments, the completion endpoint answers, Reddit accepts the
  comment and the storage layer is up.\<close>

definition live_world :: world where
  "live_world =
     \<lparr>hot_listing = HttpResponse 200 (Some [demo_post]),
      comments_listing = (\<lambda>postId. HttpResponse 200 (Some demo_comments)),
      completion = (\<lambda>post comments. HttpResponse 200 (Some '' Lovely look! '')),
      comment_api = (\<lambda>postId commentText. HttpResponse 200 (Some accepted)),
      select_failure = (\<lambda>postId. None),
      insert_failure = (\<lambda>postId. None),
      now_seconds = 8200\<rparr>"

text \<open>The same world with the comment listing down, and with the storage queries
  failing.\<close>

definition comments_down_world :: world where
  "comments_down_world = live_world\<lparr>comments_listing := (\<lambda>postId. NetworkFailure)\<rparr>"


text \<open>The live world with a comment listing that has only two usable comments.\<close>

definition two_usable_world :: world where
  "two_usable_world =
     live_world\<lparr>comments_listing := (\<lambda>postId. HttpResponse 200 (Some (take 3 demo_comments)))\<rparr>"


definition dry_cfg :: CommenterConfig where
  "dry_cfg = demo_cfg\<lparr>dryRunMode := True\<rparr>"

text \<open>Inputs of the Image Resolver: a gallery post whose ordered item list starts with
  an item that has a source link; one whose first item has no source link while another
  entry has one; probes that always find an image, and a network that is down.\<close>

definition gallery_post :: RawPost where
  "gallery_post =
     \<lparr>r_id = ''g1'', r_url = Some ''https://www.reddit.com/gallery/g1'',
      r_is_video = False, r_is_gallery = True,
      r_media_metadata =
        Some [(''zzz'', MediaItem (Some (MediaSource (Some ''https://preview/z.jpg?a=1&amp;b=2'')))),
              (''aaa'', MediaItem (Some (MediaSource (Some ''https://preview/a.jpg?a=1&amp;b=2''))))],
      r_gallery_data = Some (GalleryData (Some [GalleryItem ''aaa'', GalleryItem ''zzz'']))\<rparr>"

definition fallback_post :: RawPost where
  "fallback_post =
     \<lparr>r_id = ''g2'', r_url = Some ''https://www.reddit.com/gallery/g2'',
      r_is_video = False, r_is_gallery = True,
      r_media_metadata =
        Some [(''zzz'', MediaItem (Some (MediaSource (Some ''https://preview/z.jpg'')))),
              (''aaa'', MediaItem None)],
      r_gallery_data = Some (GalleryData (Some [GalleryItem ''aaa'', GalleryItem ''zzz'']))\<rparr>"

definition video_post :: RawPost where
  "video_post =
     \<lparr>r_id = ''v1'', r_url = Some ''https://v.redd.it/v1'', r_is_video = True,
      r_is_gallery = False, r_media_metadata = None, r_gallery_data = None\<rparr>"

definition linkless_post :: RawPost where
  "linkless_post =
     \<lparr>r_id = ''s1'', r_url = None, r_is_video = False,
      r_is_gallery = False, r_media_metadata = None, r_gallery_data = None\<rparr>"

definition image_everywhere :: "string \<Rightarrow> head_result" where
  "image_everywhere link = HeadResponse 200 (Some ''image/jpeg'')"

definition network_down :: "string \<Rightarrow> head_result" where
  "network_down link = HeadFails"

section \<open>Properties of the Comment Generator\<close>

text \<open>A text that is not longer than the maximum and contains a blacklisted keyword is
  rejected, whether it is long enough or not.\<close>

lemma generateComment_rejects_blacklisted_within_limit:
  assumes "completion w post comments = HttpResponse code (Some content)"
    and "response_ok code"
    and "length (trim content) \<le> maxCommentLength cfg"
    and "hasBlacklisted cfg (trim content)"
  shows "fst (generateComment cfg w post comments st) = None"
  using assms by (simp add: generateComment_def validateComment_def)

text \<open>
  C1. The claim: whatever its length, a text of the completion endpoint that contains a
  blacklisted keyword (compared without regard to case) makes \<open>generateComment\<close> return
  \<open>null\<close>. The code returns early when the text is longer than the maximum: it truncates
  and never reaches the blacklist check. With the keyword \<open>Spam\<close> blacklisted, a minimum
  of 3 and a maximum of 12, the answer \<open>Buy SPAM now, friends!\<close> contains the keyword, and
  \<open>generateComment\<close> returns its first 12 characters, which still contain the keyword.
\<close>

theorem generateComment_long_text_skips_blacklist:
  "hasBlacklisted demo_cfg (trim ''  Buy SPAM now, friends!  '') \<and>
   fst (generateComment demo_cfg (answering ''  Buy SPAM now, friends!  '') demo_post []
          empty_sys) = Some ''Buy SPAM now'' \<and>
   hasBlacklisted demo_cfg ''Buy SPAM now''"
  by code_simp

text \<open>
  C2, as the code has it. When the completion endpoint answers with a text, the comment
  is that text with the surrounding white space trimmed, and the lengths compared are
  those of the comment. A comment shorter than the configured minimum makes
  \<open>generateComment\<close> return \<open>null\<close>; a comment that is not shorter than the minimum and is
  longer than the configured maximum is returned cut to its first \<open>maxCommentLength\<close>
  characters, a prefix of the comment of exactly that length: it is not dropped for
  being too long.
\<close>

theorem generateComment_length_bounds:
  assumes "completion w post comments = HttpResponse code (Some content)"
    and "response_ok code"
  shows "(length (trim content) < minCommentLength cfg \<longrightarrow>
            fst (generateComment cfg w post comments st) = None) \<and>
         (minCommentLength cfg \<le> length (trim content) \<and>
          maxCommentLength cfg < length (trim content) \<longrightarrow>
            fst (generateComment cfg w post comments st)
              = Some (take (maxCommentLength cfg) (trim content)) \<and>
            length (take (maxCommentLength cfg) (trim content)) = maxCommentLength cfg)"
  using assms by (simp add: generateComment_def validateComment_def substring0_def)

theorem generateComment_length_bounds_witness:
  "fst (generateComment demo_cfg (answering '' ok '') demo_post [] empty_sys) = None \<and>
   fst (generateComment demo_cfg (answering ''  Buy SPAM now, friends!  '') demo_post []
          empty_sys) = Some ''Buy SPAM now''"
proof -
  have short: "completion (answering '' ok '') demo_post [] = HttpResponse 200 (Some '' ok '')"
    by (simp add: answering_def)
  have long: "completion (answering ''  Buy SPAM now, friends!  '') demo_post []
                = HttpResponse 200 (Some ''  Buy SPAM now, friends!  '')"
    by (simp add: answering_def)
  have ok: "response_ok 200"
    by (simp add: response_ok_def)
  have t1: "trim '' ok '' = ''ok''"
    by code_simp
  have t2: "trim ''  Buy SPAM now, friends!  '' = ''Buy SPAM now, friends!''"
    by code_simp
  have cfg: "minCommentLength demo_cfg = 3" "maxCommentLength demo_cfg = 12"
    by (simp_all add: demo_cfg_def)
  from generateComment_length_bounds[OF short ok, of demo_cfg empty_sys]
       generateComment_length_bounds[OF long ok, of demo_cfg empty_sys]
  show ?thesis
    by (simp add: t1 t2 cfg)
qed

text \<open>
  C2, as the claim states it, measures the text of the endpoint and returns a prefix of
  exactly the maximum length for every text longer than the maximum. With a minimum of
  3 and a maximum of 12, the answer \<open>Lovely look\<close> followed by five spaces has 16
  characters, and \<open>generateComment\<close> returns the 11 characters of the trimmed text, which
  is shorter than the maximum. With a minimum of 20 above the maximum of 12, a text of
  15 characters is longer than the maximum and \<open>generateComment\<close> returns \<open>null\<close>: the
  check against the minimum comes first.
\<close>

theorem generateComment_length_claim_fails:
  "length ''Lovely look     '' > maxCommentLength demo_cfg \<and>
   fst (generateComment demo_cfg (answering ''Lovely look     '') demo_post [] empty_sys)
     = Some ''Lovely look'' \<and>
   length ''Lovely look'' < maxCommentLength demo_cfg \<and>
   length ''Fifteen letters'' > maxCommentLength (demo_cfg\<lparr>minCommentLength := 20\<rparr>) \<and>
   fst (generateComment (demo_cfg\<lparr>minCommentLength := 20\<rparr>) (answering ''Fifteen letters'')
          demo_post [] empty_sys) = None"
  by code_simp

section \<open>Properties of the Run Orchestrator\<close>

subsection \<open>What each step adds to the effects\<close>

lemma confirmed_from_weaken: "confirmed_from w None evs \<Longrightarrow> confirmed_from w prev evs"
  by (cases evs) (auto split: event.splits)

lemma confirmed_from_append:
  "confirmed_from w prev xs \<Longrightarrow> confirmed_from w None ys \<Longrightarrow> confirmed_from w prev (xs @ ys)"
  by (induction xs arbitrary: prev) (auto simp: confirmed_from_weaken)

lemma confirmed_from_no_inserts:
  "list_all (\<lambda>e. \<not> isRecordInsert e) evs \<Longrightarrow> confirmed_from w prev evs"
  by (induction evs arbitrary: prev) (auto simp: isRecordInsert_def split: event.splits)

lemma inserted_ids_append: "inserted_ids (xs @ ys) = inserted_ids xs @ inserted_ids ys"
  by (induction xs) auto

lemma inserted_ids_no_inserts:
  "list_all (\<lambda>e. \<not> isRecordInsert e) evs \<Longrightarrow> inserted_ids evs = []"
  by (induction evs) (auto simp: isRecordInsert_def split: event.splits)

lemma processPost_events:
  "\<exists>evs. trace (snd (processPost cfg w post st)) = trace st @ evs \<and> confirmed_from w None evs
     \<and> bot_comments (snd (processPost cfg w post st)) = bot_comments st @ inserted_ids evs"
  by (auto simp: processPost_def processPost_try_def fetchPostComments_def generateComment_def
        postComment_def recordComment_def afterPosting_def emit_def Let_def
      split: http_result.splits option.splits if_splits prod.splits sum.splits)

lemma processCandidates_step:
  "\<exists>result'. processCandidates cfg w (post # rest) result st
      = processCandidates cfg w rest result' (snd (processPost cfg w post st))"
  by (auto simp: Let_def split: prod.splits sum.splits)

lemma processCandidates_events:
  "\<exists>evs. trace (snd (processCandidates cfg w posts result st)) = trace st @ evs
     \<and> confirmed_from w None evs
     \<and> bot_comments (snd (processCandidates cfg w posts result st)) = bot_comments st @ inserted_ids evs"
proof (induction posts arbitrary: result st)
  case Nil
  show ?case by simp
next
  case (Cons post rest)
  let ?st1 = "snd (processPost cfg w post st)"
  obtain result' where step: "processCandidates cfg w (post # rest) result st
      = processCandidates cfg w rest result' ?st1"
    using processCandidates_step by blast
  obtain evs1 where e1: "trace ?st1 = trace st @ evs1" "confirmed_from w None evs1"
      "bot_comments ?st1 = bot_comments st @ inserted_ids evs1"
    using processPost_events by blast
  obtain evs2 where e2: "trace (snd (processCandidates cfg w rest result' ?st1)) = trace ?st1 @ evs2"
      "confirmed_from w None evs2"
      "bot_comments (snd (processCandidates cfg w rest result' ?st1)) = bot_comments ?st1 @ inserted_ids evs2"
    using Cons.IH by blast
  have "trace (snd (processCandidates cfg w (post # rest) result st)) = trace st @ (evs1 @ evs2)"
    using step e1 e2 by simp
  moreover have "confirmed_from w None (evs1 @ evs2)"
    using e1 e2 by (simp add: confirmed_from_append)
  moreover have "bot_comments (snd (processCandidates cfg w (post # rest) result st))
      = bot_comments st @ inserted_ids (evs1 @ evs2)"
    using step e1 e2 by (simp add: inserted_ids_append)
  ultimately show ?case by blast
qed

lemma checkAlreadyCommented_state:
  "snd (checkAlreadyCommented w postId st) = emit (RecordLookup postId) st"
  by (simp add: checkAlreadyCommented_def Let_def split: query_result.splits)

lemma collectNotCommented_state:
  "snd (collectNotCommented w posts acc st)
     = st\<lparr>trace := trace st @ map (\<lambda>post. RecordLookup (p_id post)) posts\<rparr>"
proof (induction posts arbitrary: acc st)
  case Nil
  show ?case by simp
next
  case (Cons post rest)
  obtain a st1 where c: "checkAlreadyCommented w (p_id post) st = (a, st1)"
    by (cases "checkAlreadyCommented w (p_id post) st")
  then have "st1 = emit (RecordLookup (p_id post)) st"
    using checkAlreadyCommented_state[of w "p_id post" st] by simp
  with c Cons.IH show ?case
    by (simp add: emit_def)
qed

lemma fetchHotPosts_state: "snd (fetchHotPosts cfg w st) = emit HotPostsRequest st"
  by (simp add: fetchHotPosts_def Let_def split: http_result.splits option.splits)

lemma filterCandidatePosts_state:
  "snd (filterCandidatePosts cfg w posts st)
     = st\<lparr>trace := trace st @ map (\<lambda>post. RecordLookup (p_id post))
          (filter (\<lambda>post. \<not> p_is_video post \<and> isImageUrl_commenter (p_url post))
            (filter (\<lambda>post. now_seconds w - p_created_utc post \<le> maxPostAgeHours cfg * 3600)
              (filter (\<lambda>post. p_num_comments post \<ge> minCommentCount cfg) posts)))\<rparr>"
  using collectNotCommented_state[of w _ "[]" st]
  by (simp add: filterCandidatePosts_def Let_def split: prod.splits) (metis snd_conv)

lemma filterCandidatePosts_events:
  "\<exists>evs. trace (snd (filterCandidatePosts cfg w posts st)) = trace st @ evs
      \<and> list_all (\<lambda>e. \<not> isRecordInsert e) evs
      \<and> bot_comments (snd (filterCandidatePosts cfg w posts st)) = bot_comments st"
  by (simp add: filterCandidatePosts_state list_all_iff isRecordInsert_def) 

lemma run_events:
  "\<exists>evs. trace (snd (runIntelligentCommenter cfg w st)) = trace st @ evs \<and> confirmed_from w None evs
     \<and> bot_comments (snd (runIntelligentCommenter cfg w st)) = bot_comments st @ inserted_ids evs"
proof -
  obtain r where fh: "fetchHotPosts cfg w st = (r, emit HotPostsRequest st)"
    using fetchHotPosts_state[of cfg w st] by (metis prod.collapse)
  show ?thesis
  proof (cases r)
    case (Inl e)
    with fh have "snd (runIntelligentCommenter cfg w st) = emit HotPostsRequest st"
      by (simp add: runIntelligentCommenter_def)
    then have "trace (snd (runIntelligentCommenter cfg w st)) = trace st @ [HotPostsRequest]"
      "confirmed_from w None [HotPostsRequest]"
      "bot_comments (snd (runIntelligentCommenter cfg w st)) = bot_comments st @ inserted_ids [HotPostsRequest]"
      by (simp_all add: emit_def)
    then show ?thesis by blast
  next
    case (Inr hotPosts)
    let ?st1 = "emit HotPostsRequest st"
    obtain candidates st2 where fc: "filterCandidatePosts cfg w hotPosts ?st1 = (candidates, st2)"
      by (cases "filterCandidatePosts cfg w hotPosts ?st1")
    obtain evs where f: "trace st2 = trace ?st1 @ evs" "list_all (\<lambda>e. \<not> isRecordInsert e) evs"
       "bot_comments st2 = bot_comments ?st1"
      using filterCandidatePosts_events[of cfg w hotPosts ?st1] fc by auto
    have t2: "trace st2 = trace st @ (HotPostsRequest # evs)"
      using f by (simp add: emit_def)
    have c2: "confirmed_from w None (HotPostsRequest # evs)"
      using f(2) by (simp add: confirmed_from_no_inserts)
    have b2: "bot_comments st2 = bot_comments st @ inserted_ids (HotPostsRequest # evs)"
      using f by (simp add: emit_def inserted_ids_no_inserts)
    show ?thesis
    proof (cases "length candidates = 0")
      case True
      with fh Inr fc have "snd (runIntelligentCommenter cfg w st) = st2"
        by (simp add: runIntelligentCommenter_def Let_def)
      with t2 c2 b2 show ?thesis by blast
    next
      case False
      let ?result = "initialResult\<lparr>apiCallsUsed := apiCallsUsed initialResult + 1\<rparr>"
      let ?st3 = "snd (processCandidates cfg w candidates ?result st2)"
      from False fh Inr fc
      have r: "snd (runIntelligentCommenter cfg w st) = ?st3"
        by (simp add: runIntelligentCommenter_def Let_def split: prod.splits)
      obtain evs3 where e3: "trace ?st3 = trace st2 @ evs3" "confirmed_from w None evs3"
          "bot_comments ?st3 = bot_comments st2 @ inserted_ids evs3"
        using processCandidates_events by blast
      have "trace (snd (runIntelligentCommenter cfg w st)) = trace st @ ((HotPostsRequest # evs) @ evs3)"
        using r e3 t2 by simp
      moreover have "confirmed_from w None ((HotPostsRequest # evs) @ evs3)"
        using c2 e3(2) by (rule confirmed_from_append)
      moreover have "bot_comments (snd (runIntelligentCommenter cfg w st))
          = bot_comments st @ inserted_ids ((HotPostsRequest # evs) @ evs3)"
        using r e3 b2 by (simp only: inserted_ids_append append_assoc)
      ultimately show ?thesis by blast
    qed
  qed
qed

text \<open>A run in a world where everything works: one post is fetched, looked up, read,
  commented and recorded.\<close>

lemma live_run:
  "runIntelligentCommenter demo_cfg live_world empty_sys
     = (Inr \<lparr>processed = 1, commented = 1, skipped = 0, errors = 0, apiCallsUsed = 4\<rparr>,
        \<lparr>bot_comments = [''p1''],
         trace = [HotPostsRequest, RecordLookup ''p1'', CommentsRequest ''p1'',
                  CompletionRequest ''p1'', CommentSubmission ''p1'' ''Lovely look!'' True,
                  RecordInsert ''p1'' True, Delay 30]\<rparr>)"
  by code_simp

text \<open>The predicate refuses an insert that no confirmed submission precedes.\<close>

lemma inserts_confirmed_refuses_speculation:
  "\<not> inserts_confirmed live_world [CommentsRequest ''p1'', RecordInsert ''p1'' True] \<and>
   \<not> inserts_confirmed live_world
        [CommentSubmission ''p1'' ''Lovely look!'' False, RecordInsert ''p1'' True]"
  by code_simp

subsection \<open>CommentRecords follow confirmed submissions\<close>

text \<open>
  C5. In every run of \<open>runIntelligentCommenter\<close>, from any state and in any world, each
  insert of a CommentRecord comes right after a comment submission for the same post
  that \<open>RedditOAuthManager.postComment\<close> reported as successful, and the rows the table
  has gained are those of the accepted inserts: no record is created before or without
  a confirmed submission.
\<close>

theorem run_inserts_follow_confirmed_submissions:
  "inserts_confirmed w (new_events st (snd (runIntelligentCommenter cfg w st))) \<and>
   bot_comments (snd (runIntelligentCommenter cfg w st))
     = bot_comments st @ inserted_ids (new_events st (snd (runIntelligentCommenter cfg w st)))"
  using run_events[of cfg w st] by (auto simp: inserts_confirmed_def new_events_def)

theorem run_inserts_follow_confirmed_submissions_witness:
  "inserts_confirmed live_world
     [HotPostsRequest, RecordLookup ''p1'', CommentsRequest ''p1'', CompletionRequest ''p1'',
      CommentSubmission ''p1'' ''Lovely look!'' True, RecordInsert ''p1'' True, Delay 30]"
  using run_inserts_follow_confirmed_submissions[of live_world empty_sys demo_cfg]
  unfolding live_run by (simp add: new_events_def empty_sys_def)

subsection \<open>Too few usable comments\<close>

text \<open>
  C3, as the code has it. When the comment listing of a candidate answers and fewer than
  three of its comments are usable (a body that is there, is not empty, is not
  \<open>[deleted]\<close> and is longer than 10), \<open>processPost\<close> returns \<open>false\<close> and its only
  effect is the request for the comments: the candidate is skipped before any completion
  request is made. The threshold is the constant 3 of \<open>processPost\<close>, whatever the
  configuration says.
\<close>

theorem processPost_skips_below_three_usable_comments:
  assumes "comments_listing w (p_id post) = HttpResponse code (Some children)"
    and "response_ok code"
    and "length (filter usableComment children) < 3"
  shows "processPost cfg w post st = (Inr False, emit (CommentsRequest (p_id post)) st) \<and>
         new_events st (snd (processPost cfg w post st)) = [CommentsRequest (p_id post)]"
  using assms
  by (simp add: processPost_def processPost_try_def fetchPostComments_def Let_def emit_def
        new_events_def)

theorem processPost_skips_below_three_usable_comments_witness:
  "processPost demo_cfg two_usable_world demo_post empty_sys
     = (Inr False, emit (CommentsRequest ''p1'') empty_sys)"
proof -
  have listing: "comments_listing two_usable_world (p_id demo_post)
                   = HttpResponse 200 (Some (take 3 demo_comments))"
    by (simp add: two_usable_world_def)
  have ok: "response_ok 200"
    by (simp add: response_ok_def)
  have few: "length (filter usableComment (take 3 demo_comments)) < 3"
    by code_simp
  have pid: "p_id demo_post = ''p1''"
    by (simp add: demo_post_def)
  from processPost_skips_below_three_usable_comments[OF listing ok few, of demo_cfg empty_sys]
  show ?thesis
    by (simp add: pid)
qed

text \<open>
  C3, as the claim states it, speaks of a configured minimum. The only minimum count of
  the configuration is \<open>minCommentCount\<close>, which the Candidate Filter compares with the
  comment total of a post. With \<open>minCommentCount = 5\<close> and three usable comments, fewer
  than the configured minimum, the candidate is not skipped: the completion endpoint
  is asked and the comment is posted and recorded.
\<close>

theorem processPost_ignores_configured_minimum:
  "comments_listing live_world (p_id demo_post) = HttpResponse 200 (Some demo_comments) \<and>
   length (filter usableComment demo_comments) < minCommentCount demo_cfg \<and>
   processPost demo_cfg live_world demo_post empty_sys
     = (Inr True, \<lparr>bot_comments = [''p1''],
          trace = [CommentsRequest ''p1'', CompletionRequest ''p1'',
                   CommentSubmission ''p1'' ''Lovely look!'' True, RecordInsert ''p1'' True, Delay 30]\<rparr>)"
  by code_simp

subsection \<open>Dry runs\<close>

text \<open>
  C6. With \<open>dryRunMode\<close> on, processing a candidate leaves the \<open>bot_comments\<close> table as it
  was and has no insert and no comment submission among its effects, in every world.
  Generation and validation still run: when the comment listing answers with at least
  three usable comments and the completion endpoint answers, the outcome is decided by
  \<open>validateComment\<close>; a rejected or empty comment ends the processing with \<open>false\<close>
  after the completion request, and an accepted one is printed instead of submitted,
  \<open>postComment\<close> reports success and \<open>processPost\<close> returns \<open>true\<close>.
\<close>

theorem processPost_dry_run_effects:
  assumes "dryRunMode cfg"
  shows "bot_comments (snd (processPost cfg w post st)) = bot_comments st \<and>
         list_all (\<lambda>e. \<not> isRecordInsert e \<and> \<not> isCommentSubmission e)
           (new_events st (snd (processPost cfg w post st))) \<and>
         (\<forall>code children code' content.
            comments_listing w (p_id post) = HttpResponse code (Some children) \<and>
            response_ok code \<and> 3 \<le> length (filter usableComment children) \<and>
            completion w post (filter usableComment children) = HttpResponse code' (Some content) \<and>
            response_ok code' \<longrightarrow>
              (case validateComment cfg (trim content) of
                 None \<Rightarrow>
                   fst (processPost cfg w post st) = Inr False \<and>
                   new_events st (snd (processPost cfg w post st))
                     = [CommentsRequest (p_id post), CompletionRequest (p_id post)]
               | Some commentText \<Rightarrow>
                   if commentText = []
                   then fst (processPost cfg w post st) = Inr False \<and>
                        new_events st (snd (processPost cfg w post st))
                          = [CommentsRequest (p_id post), CompletionRequest (p_id post)]
                   else fst (postComment cfg w (p_id post) commentText st) = True \<and>
                        fst (processPost cfg w post st) = Inr True \<and>
                        take 3 (new_events st (snd (processPost cfg w post st)))
                          = [CommentsRequest (p_id post), CompletionRequest (p_id post),
                             DryRunPrint (p_id post) commentText]))"
  using assms
  by (auto simp: processPost_def processPost_try_def fetchPostComments_def generateComment_def
        postComment_def afterPosting_def emit_def Let_def new_events_def
        isRecordInsert_def isCommentSubmission_def
      split: http_result.splits option.splits if_splits prod.splits sum.splits)

theorem processPost_dry_run_effects_witness:
  "bot_comments (snd (processPost dry_cfg live_world demo_post empty_sys)) = [] \<and>
   fst (processPost dry_cfg live_world demo_post empty_sys) = Inr True \<and>
   take 3 (new_events empty_sys (snd (processPost dry_cfg live_world demo_post empty_sys)))
     = [CommentsRequest ''p1'', CompletionRequest ''p1'', DryRunPrint ''p1'' ''Lovely look!'']"
proof -
  have dry: "dryRunMode dry_cfg"
    by (simp add: dry_cfg_def)
  have pid: "p_id demo_post = ''p1''"
    by (simp add: demo_post_def)
  have listing: "comments_listing live_world (p_id demo_post) = HttpResponse 200 (Some demo_comments)"
    by (simp add: live_world_def)
  have ok: "response_ok 200"
    by (simp add: response_ok_def)
  have enough: "3 \<le> length (filter usableComment demo_comments)"
    by code_simp
  have answer: "completion live_world demo_post (filter usableComment demo_comments)
                  = HttpResponse 200 (Some '' Lovely look! '')"
    by (simp add: live_world_def)
  have valid: "validateComment dry_cfg (trim '' Lovely look! '') = Some ''Lovely look!''"
    by code_simp
  note T = processPost_dry_run_effects[OF dry, of live_world demo_post empty_sys]
  from T have table: "bot_comments (snd (processPost dry_cfg live_world demo_post empty_sys)) = bot_comments empty_sys"
    by blast
  from T listing ok enough answer
  have "case validateComment dry_cfg (trim '' Lovely look! '') of
                 None \<Rightarrow>
                   fst (processPost dry_cfg live_world demo_post empty_sys) = Inr False \<and>
                   new_events empty_sys (snd (processPost dry_cfg live_world demo_post empty_sys))
                     = [CommentsRequest (p_id demo_post), CompletionRequest (p_id demo_post)]
               | Some commentText \<Rightarrow>
                   if commentText = []
                   then fst (processPost dry_cfg live_world demo_post empty_sys) = Inr False \<and>
                        new_events empty_sys (snd (processPost dry_cfg live_world demo_post empty_sys))
                          = [CommentsRequest (p_id demo_post), CompletionRequest (p_id demo_post)]
                   else fst (postComment dry_cfg live_world (p_id demo_post) commentText empty_sys) = True \<and>
                        fst (processPost dry_cfg live_world demo_post empty_sys) = Inr True \<and>
                        take 3 (new_events empty_sys (snd (processPost dry_cfg live_world demo_post empty_sys)))
                          = [CommentsRequest (p_id demo_post), CompletionRequest (p_id demo_post),
                             DryRunPrint (p_id demo_post) commentText]"
    by blast
  with table show ?thesis
    by (simp add: valid pid empty_sys_def)
qed

subsection \<open>Counting failures\<close>

text \<open>\<open>processPost\<close> catches every exception of its body, so the \<open>catch\<close> around
  its call in \<open>runIntelligentCommenter\<close>, the only place that increments \<open>errors\<close>, is
  never entered: a run that returns has counted no error, and every candidate it
  processed as commented or skipped.\<close>

lemma processPost_never_throws: "\<exists>success. fst (processPost cfg w post st) = Inr success"
  by (cases "processPost_try cfg w post st") (auto simp: processPost_def split: sum.splits)

lemma processCandidates_counts:
  "errors (fst (processCandidates cfg w posts result st)) = errors result \<and>
   processed (fst (processCandidates cfg w posts result st)) = processed result + length posts \<and>
   commented (fst (processCandidates cfg w posts result st))
     + skipped (fst (processCandidates cfg w posts result st))
     = commented result + skipped result + length posts"
proof (induction posts arbitrary: result st)
  case Nil
  show ?case by simp
next
  case (Cons post rest)
  obtain success st1 where pp: "processPost cfg w post st = (Inr success, st1)"
    using processPost_never_throws[of cfg w post st] by (metis prod.collapse)
  show ?case
    using pp by (simp add: Let_def Cons.IH)
qed

lemma run_never_counts_errors:
  assumes "fst (runIntelligentCommenter cfg w st) = Inr result"
  shows "errors result = 0 \<and> processed result = commented result + skipped result"
proof -
  obtain r where fh: "fetchHotPosts cfg w st = (r, emit HotPostsRequest st)"
    using fetchHotPosts_state[of cfg w st] by (metis prod.collapse)
  show ?thesis
  proof (cases r)
    case (Inl e)
    with fh assms show ?thesis by (simp add: runIntelligentCommenter_def)
  next
    case (Inr hotPosts)
    obtain candidates st2 where fc:
      "filterCandidatePosts cfg w hotPosts (emit HotPostsRequest st) = (candidates, st2)"
      by (cases "filterCandidatePosts cfg w hotPosts (emit HotPostsRequest st)")
    let ?result = "initialResult\<lparr>apiCallsUsed := apiCallsUsed initialResult + 1\<rparr>"
    show ?thesis
    proof (cases "length candidates = 0")
      case True
      with fh Inr fc assms have "result = ?result"
        by (simp add: runIntelligentCommenter_def Let_def)
      then show ?thesis by (simp add: initialResult_def)
    next
      case False
      with fh Inr fc assms
      have "result = fst (processCandidates cfg w candidates ?result st2)"
        by (simp add: runIntelligentCommenter_def Let_def split: prod.splits)
      then show ?thesis
        using processCandidates_counts[of cfg w candidates ?result st2]
        by (simp add: initialResult_def)
    qed
  qed
qed

text \<open>A failure of the hot listing (no response, a status that is not a success, or a
  body without the listing) ends the run with the exception, after that one request.\<close>

lemma hot_fetch_failure_aborts:
  assumes "hot_listing w = NetworkFailure \<or> (\<exists>code body. hot_listing w = HttpResponse code body \<and> (response_ok code \<longrightarrow> body = None))"
  shows "\<exists>e. runIntelligentCommenter cfg w st = (Inl e, emit HotPostsRequest st)"
  using assms
  by (auto simp: runIntelligentCommenter_def fetchHotPosts_def Let_def split: http_result.splits option.splits)

text \<open>
  C9. The claim: a failure while processing one candidate increments the error counter
  and the run goes on; a failure of the initial fetch aborts the run. In a run over one
  candidate whose comment listing is down, \<open>processPost\<close> catches the exception and
  returns \<open>false\<close>, so the run counts the candidate as skipped and the error counter
  stays 0.
\<close>

theorem run_counts_failed_candidate_as_skipped:
  "runIntelligentCommenter demo_cfg comments_down_world empty_sys
     = (Inr \<lparr>processed = 1, commented = 0, skipped = 1, errors = 0, apiCallsUsed = 3\<rparr>,
        \<lparr>bot_comments = [],
         trace = [HotPostsRequest, RecordLookup ''p1'', CommentsRequest ''p1'']\<rparr>)"
  by code_simp

section \<open>Properties of the Candidate Filter\<close>







section \<open>Properties of the Image Resolver\<close>

text \<open>
  C7. A raw post without a link (the field is absent or empty) or flagged as video is
  rejected by \<open>validateImage\<close>, in both crawlers, with the reason \<open>No URL found\<close> or
  \<open>Post is a video\<close>, and no link is probed over the network.
\<close>

theorem validateImage_rejects_without_probing:
  assumes "r_url post = None \<or> r_url post = Some [] \<or> r_is_video post"
  shows "\<not> isValid (fst (validateImage head post)) \<and>
         snd (validateImage head post) = [] \<and>
         reason (fst (validateImage head post))
           = Some (if r_url post = None \<or> r_url post = Some [] then ''No URL found''
                   else ''Post is a video'') \<and>
         \<not> isValid (fst (validateImage_comprehensive head post)) \<and>
         snd (validateImage_comprehensive head post) = [] \<and>
         reason (fst (validateImage_comprehensive head post))
           = Some (if r_url post = None \<or> r_url post = Some [] then ''No URL found''
                   else ''Post is a video'')"
  using assms
  by (auto simp: validateImage_def validateImage_comprehensive_def split: option.splits)

theorem validateImage_rejects_without_probing_witness:
  "validateImage image_everywhere linkless_post
     = (\<lparr>isValid = False, iv_url = [], reason = Some ''No URL found''\<rparr>, []) \<and>
   \<not> isValid (fst (validateImage image_everywhere video_post)) \<and>
   reason (fst (validateImage_comprehensive image_everywhere video_post)) = Some ''Post is a video'' \<and>
   snd (validateImage image_everywhere video_post) = []"
proof -
  have a: "r_url linkless_post = None \<or> r_url linkless_post = Some [] \<or> r_is_video linkless_post"
    by (simp add: linkless_post_def)
  have b: "r_url video_post = None \<or> r_url video_post = Some [] \<or> r_is_video video_post"
    by (simp add: video_post_def)
  have u: "r_url video_post = Some ''https://v.redd.it/v1''" "r_url linkless_post = None"
    by (simp_all add: video_post_def linkless_post_def)
  have l: "iv_url (fst (validateImage image_everywhere linkless_post)) = []"
    by (simp add: validateImage_def u)
  from validateImage_rejects_without_probing[OF a, of image_everywhere] validateImage_rejects_without_probing[OF b, of image_everywhere] l show ?thesis
    by (cases "validateImage image_everywhere linkless_post") (auto simp: u)
qed

text \<open>Decoding never empties a link.\<close>

lemma replace_amp_not_empty: "u \<noteq> [] \<Longrightarrow> replace_amp u \<noteq> []"
  by (cases u) auto

text \<open>
  C8. For a gallery post whose ordered item list is not empty and whose first item has a
  media-metadata entry with a source link, \<open>extractFirstImageFromGallery\<close> returns that
  link with the escaped ampersands decoded, whatever the other entries are. When the
  link of the post is classified as a gallery (not a video, not a direct image link),
  the resolver of \<open>comprehensive-crawler.ts\<close> accepts the post with this link, and the
  resolver of \<open>crawler.ts\<close> returns this link, valid when its final probe of the link
  finds an image.
\<close>

theorem gallery_first_listed_item:
  assumes "r_is_gallery post"
    and "r_media_metadata post = Some metadata"
    and "r_gallery_data post = Some (GalleryData (Some (firstItem # others)))"
    and "map_of metadata (media_id firstItem) = Some (MediaItem (Some (MediaSource (Some u))))"
    and "u \<noteq> []"
  shows "extractFirstImageFromGallery post = Some (replace_amp u) \<and>
         (\<forall>link. r_url post = Some link \<and> link \<noteq> [] \<and> \<not> r_is_video post \<and>
                 \<not> isImageUrl link \<and> isGalleryUrl link \<longrightarrow>
            validateImage_comprehensive head post
              = (\<lparr>isValid = True, iv_url = replace_amp u, reason = None\<rparr>, []) \<and>
            iv_url (fst (validateImage head post)) = replace_amp u \<and>
            isValid (fst (validateImage head post))
              = fst (checkImageAvailability head (replace_amp u)) \<and>
            snd (validateImage head post) = [replace_amp u])"
proof -
  have e: "extractFirstImageFromGallery post = Some (replace_amp u)"
    using assms
    by (simp add: extractFirstImageFromGallery_def galleryItems_def mediaItemUrl_def)
  have n: "replace_amp u \<noteq> []"
    using assms(5) by (rule replace_amp_not_empty)
  show ?thesis
    using e n
    by (auto simp: validateImage_def validateImage_comprehensive_def confirmAvailable_def
          checkImageAvailability_def
        split: head_result.splits)
qed

theorem gallery_first_listed_item_witness:
  "extractFirstImageFromGallery gallery_post = Some ''https://preview/a.jpg?a=1&b=2'' \<and>
   validateImage_comprehensive network_down gallery_post
     = (\<lparr>isValid = True, iv_url = ''https://preview/a.jpg?a=1&b=2'', reason = None\<rparr>, []) \<and>
   iv_url (fst (validateImage network_down gallery_post)) = ''https://preview/a.jpg?a=1&b=2''"
proof -
  have g: "r_is_gallery gallery_post"
    by (simp add: gallery_post_def)
  have m: "r_media_metadata gallery_post
             = Some [(''zzz'', MediaItem (Some (MediaSource (Some ''https://preview/z.jpg?a=1&amp;b=2'')))),
                     (''aaa'', MediaItem (Some (MediaSource (Some ''https://preview/a.jpg?a=1&amp;b=2''))))]"
    by (simp add: gallery_post_def)
  have d: "r_gallery_data gallery_post
             = Some (GalleryData (Some (GalleryItem ''aaa'' # [GalleryItem ''zzz''])))"
    by (simp add: gallery_post_def)
  have f: "map_of [(''zzz'', MediaItem (Some (MediaSource (Some ''https://preview/z.jpg?a=1&amp;b=2'')))),
                   (''aaa'', MediaItem (Some (MediaSource (Some ''https://preview/a.jpg?a=1&amp;b=2''))))]
             (media_id (GalleryItem ''aaa''))
           = Some (MediaItem (Some (MediaSource (Some ''https://preview/a.jpg?a=1&amp;b=2''))))"
    by simp
  have u: "''https://preview/a.jpg?a=1&amp;b=2'' \<noteq> []"
    by simp
  have link: "r_url gallery_post = Some ''https://www.reddit.com/gallery/g1'' \<and>
              ''https://www.reddit.com/gallery/g1'' \<noteq> [] \<and> \<not> r_is_video gallery_post \<and>
              \<not> isImageUrl ''https://www.reddit.com/gallery/g1'' \<and>
              isGalleryUrl ''https://www.reddit.com/gallery/g1''"
    by code_simp
  have decoded: "replace_amp ''https://preview/a.jpg?a=1&amp;b=2'' = ''https://preview/a.jpg?a=1&b=2''"
    by simp
  note T = gallery_first_listed_item[OF g m d f u, of network_down, unfolded decoded]
  from T link show ?thesis
    by blast
qed

text \<open>
  C10. There is a gallery post with a non-empty ordered item list whose first listed item
  has a media-metadata entry without a source link, which the resolver does not reject:
  \<open>extractFirstImageFromGallery\<close> falls through to the first key of the media-metadata
  object and returns the link of another media item, and both crawlers accept the post
  with that link.
\<close>

theorem gallery_fallback_returns_other_item:
  "\<exists>post metadata firstItem others otherId otherItem.
     r_url post = Some ''https://www.reddit.com/gallery/g2'' \<and>
     isGalleryUrl ''https://www.reddit.com/gallery/g2'' \<and>
     r_is_gallery post \<and>
     r_media_metadata post = Some metadata \<and>
     r_gallery_data post = Some (GalleryData (Some (firstItem # others))) \<and>
     map_of metadata (media_id firstItem) = Some (MediaItem None) \<and>
     mediaItemUrl (map_of metadata (media_id firstItem)) = None \<and>
     otherId \<noteq> media_id firstItem \<and>
     map_of metadata otherId = Some otherItem \<and>
     extractFirstImageFromGallery post = mediaItemUrl (Some otherItem) \<and>
     extractFirstImageFromGallery post = Some ''https://preview/z.jpg'' \<and>
     validateImage_comprehensive network_down post
       = (\<lparr>isValid = True, iv_url = ''https://preview/z.jpg'', reason = None\<rparr>, []) \<and>
     validateImage image_everywhere post
       = (\<lparr>isValid = True, iv_url = ''https://preview/z.jpg'', reason = None\<rparr>,
          [''https://preview/z.jpg''])"
  apply (rule exI[of _ fallback_post])
  apply (rule exI[of _ "[(''zzz'', MediaItem (Some (MediaSource (Some ''https://preview/z.jpg'')))),
              (''aaa'', MediaItem None)]"])
  apply (rule exI[of _ "GalleryItem ''aaa''"])
  apply (rule exI[of _ "[GalleryItem ''zzz'']"])
  apply (rule exI[of _ "''zzz''"])
  apply (rule exI[of _ "MediaItem (Some (MediaSource (Some ''https://preview/z.jpg'')))"])
  apply code_simp
  done

end
